theory Spec2Isabelle
  imports Complex_Main "HOL-Library.Log_Nat"
begin

section \<open>Values of the JavaScript runtime\<close>

text \<open>
  A JavaScript number is an IEEE-754 double: not-a-number, the two infinities, or a
  finite value, given by the rational it stands for (the sign of zero plays no part in
  this module).
\<close>

datatype jsnum = NaN | NegInf | Fin rat | PosInf

text \<open>The comparison \<^verbatim>\<open>a <= b\<close> of two numbers: false as soon as one side is NaN.\<close>

fun js_le :: "jsnum \<Rightarrow> jsnum \<Rightarrow> bool" where
  "js_le NaN _ = False"
| "js_le _ NaN = False"
| "js_le NegInf _ = True"
| "js_le _ PosInf = True"
| "js_le PosInf _ = False"
| "js_le _ NegInf = False"
| "js_le (Fin a) (Fin b) = (a \<le> b)"

text \<open>The comparison \<^verbatim>\<open>a > b\<close>.\<close>

fun js_gt :: "jsnum \<Rightarrow> jsnum \<Rightarrow> bool" where
  "js_gt NaN _ = False"
| "js_gt _ NaN = False"
| "js_gt NegInf _ = False"
| "js_gt _ PosInf = False"
| "js_gt PosInf _ = True"
| "js_gt _ NegInf = True"
| "js_gt (Fin a) (Fin b) = (a > b)"

text \<open>
  The operator \<^verbatim>\<open>*\<close> on numbers is the multiplication of doubles: the exact product,
  rounded to the nearest double, to the one with an even significand when two are
  equally near, and to an infinity from \<open>2 ^ 1024\<close> on. A double has a significand of
  53 bits, and the smallest spacing between doubles is \<open>2 ^ - 1074\<close>.
\<close>

definition pow2 :: "int \<Rightarrow> rat" where
  "pow2 k = (if 0 \<le> k then 2 ^ nat k else 1 / 2 ^ nat (- k))"

text \<open>The exponent \<open>k\<close> of a positive rational: \<open>2 ^ k \<le> x < 2 ^ (k + 1)\<close>.\<close>

definition floor_log2 :: "rat \<Rightarrow> int" where
  "floor_log2 x = (if 1 \<le> x then bitlen \<lfloor>x\<rfloor> - 1 else - bitlen (\<lceil>1 / x\<rceil> - 1))"

definition round_half_even :: "rat \<Rightarrow> int" where
  "round_half_even q =
     (let f = \<lfloor>q\<rfloor>; r = q - of_int f
      in if r < 1 / 2 then f else if 1 / 2 < r then f + 1 else if even f then f else f + 1)"

definition round64 :: "rat \<Rightarrow> jsnum" where
  "round64 x =
     (if x = 0 then Fin 0
      else
        let a = \<bar>x\<bar>;
            e = max (floor_log2 a - 52) (- 1074);
            r = of_int (round_half_even (a / pow2 e)) * pow2 e
        in if pow2 1024 \<le> r then (if 0 < x then PosInf else NegInf) else Fin (sgn x * r))"

fun js_times :: "jsnum \<Rightarrow> jsnum \<Rightarrow> jsnum" where
  "js_times NaN _ = NaN"
| "js_times _ NaN = NaN"
| "js_times (Fin a) (Fin b) = round64 (a * b)"
| "js_times (Fin a) PosInf = (if a = 0 then NaN else if 0 < a then PosInf else NegInf)"
| "js_times (Fin a) NegInf = (if a = 0 then NaN else if 0 < a then NegInf else PosInf)"
| "js_times PosInf (Fin b) = (if b = 0 then NaN else if 0 < b then PosInf else NegInf)"
| "js_times NegInf (Fin b) = (if b = 0 then NaN else if 0 < b then NegInf else PosInf)"
| "js_times PosInf PosInf = PosInf"
| "js_times NegInf NegInf = PosInf"
| "js_times PosInf NegInf = NegInf"
| "js_times NegInf PosInf = NegInf"

text \<open>
  The values this module handles: \<^verbatim>\<open>undefined\<close>, a string, a \<^verbatim>\<open>File\<close> object
  (an entry of a form can be one) and a number.
\<close>

datatype jsval = Undefined | JString string | JFile | JNumber jsnum

text \<open>An entry value of a \<^verbatim>\<open>FormData\<close> is a string or a file; entries are ordered and
  a key may occur more than once.\<close>

datatype formvalue = FString string | FFile

type_synonym formdata = "(string \<times> formvalue) list"

text \<open>Anything a call can throw: an \<^verbatim>\<open>AuthError\<close> with its \<^verbatim>\<open>type\<close> field, or any
  other thrown value (with a description).\<close>

datatype jserror = AuthError string | OtherError string

datatype 'a outcome = Returns 'a | Throws jserror

section \<open>The environment: what the module imports\<close>

text \<open>
  The module calls \<^verbatim>\<open>signIn\<close>, the \<^verbatim>\<open>sql\<close> template tag, \<^verbatim>\<open>revalidatePath\<close> and
  \<^verbatim>\<open>redirect\<close>, whose code is not part of it. Each is a parameter: given its arguments
  it completes (\<open>None\<close>) or throws (\<open>Some e\<close>). The conversion of a string to a number
  and the clock's ISO timestamp belong to the runtime and are parameters as well.
\<close>

record env =
  signIn :: "string \<Rightarrow> formdata \<Rightarrow> jserror option"
  sql :: "string list \<Rightarrow> jsval list \<Rightarrow> jserror option"
  revalidatePath :: "string \<Rightarrow> jserror option"
  redirect :: "string \<Rightarrow> jserror option"
  stringToNumber :: "string \<Rightarrow> jsnum"
  toISOString :: string

text \<open>The shape \<^verbatim>\<open>{ customerId, amount, status }\<close>: of the object given to the schema,
  of the validated data, and of the per-field errors.\<close>

record ('c, 'a, 's) invoice_fields =
  customerId :: 'c
  amount :: 'a
  status :: 's

type_synonym raw_fields = "(jsval, jsval, jsval) invoice_fields"
type_synonym valid_fields = "(string, jsnum, string) invoice_fields"

text \<open>What the module does to the outside, in the order it does it.\<close>

datatype event =
    SignIn string formdata
  | SafeParse raw_fields
  | Sql "string list" "jsval list"
  | RevalidatePath string
  | Redirect string
  | ConsoleError string jserror

section \<open>authenticate\<close>

definition authenticate ::
  "env \<Rightarrow> string option \<Rightarrow> formdata \<Rightarrow> event list \<times> string option outcome" where
  "authenticate env prevState formData =
     ([SignIn ''credentials'' formData],
      (case signIn env ''credentials'' formData of
         None \<Rightarrow> Returns None
       | Some (AuthError ty) \<Rightarrow>
           (if ty = ''CredentialsSignin''
            then Returns (Some ''Invalid credentials. Please try again.'')
            else Returns (Some ''Something went wrong. Please try again later.''))
       | Some (OtherError d) \<Rightarrow> Throws (OtherError d)))"

section \<open>The form schema\<close>

text \<open>
  \<^verbatim>\<open>Object.fromEntries(formData.entries())\<close> assigns the entries in order to a fresh
  object, so the last entry of a key wins; reading a key that no entry has gives
  \<^verbatim>\<open>undefined\<close>.
\<close>

definition fromEntries :: "formdata \<Rightarrow> (string \<rightharpoonup> formvalue)" where
  "fromEntries entries = foldl (\<lambda>obj (k, v). obj(k \<mapsto> v)) Map.empty entries"

definition get_property :: "(string \<rightharpoonup> formvalue) \<Rightarrow> string \<Rightarrow> jsval" where
  "get_property obj k =
     (case obj k of
        None \<Rightarrow> Undefined
      | Some (FString s) \<Rightarrow> JString s
      | Some FFile \<Rightarrow> JFile)"

text \<open>\<^verbatim>\<open>Number(v)\<close>: a number is itself, a string is converted by the runtime,
  \<^verbatim>\<open>undefined\<close> and an object that is no number give NaN.\<close>

definition Number :: "env \<Rightarrow> jsval \<Rightarrow> jsnum" where
  "Number env v =
     (case v of
        Undefined \<Rightarrow> NaN
      | JString s \<Rightarrow> stringToNumber env s
      | JFile \<Rightarrow> NaN
      | JNumber n \<Rightarrow> n)"

text \<open>
  The message of a validation issue is the one the schema gives, or the library's own
  for the kind of issue when the schema gives none for it.
\<close>

datatype zissue = required | not_a_number | invalid_enum_value

datatype zmessage = Custom string | LibraryDefault zissue

text \<open>\<^verbatim>\<open>customerId: z.string({ invalid_type_error: 'Please select a customer.' })\<close>\<close>

definition parse_customerId :: "jsval \<Rightarrow> zmessage + string" where
  "parse_customerId v =
     (case v of
        JString s \<Rightarrow> Inr s
      | Undefined \<Rightarrow> Inl (LibraryDefault required)
      | _ \<Rightarrow> Inl (Custom ''Please select a customer.''))"

text \<open>\<^verbatim>\<open>amount: z.coerce.number().gt(0, { message: 'Please enter an amount greater than $0.' })\<close>:
  the input is coerced with \<^verbatim>\<open>Number\<close>, NaN is no number, and the bound is refused when
  \<^verbatim>\<open>amount <= 0\<close>.\<close>

definition parse_amount :: "env \<Rightarrow> jsval \<Rightarrow> zmessage + jsnum" where
  "parse_amount env v =
     (let n = Number env v in
      if n = NaN then Inl (LibraryDefault not_a_number)
      else if js_le n (Fin 0) then Inl (Custom ''Please enter an amount greater than $0.'')
      else Inr n)"

text \<open>\<^verbatim>\<open>status: z.enum(['pending', 'paid'], { invalid_type_error: 'Please select an invoice status.' })\<close>\<close>

definition parse_status :: "jsval \<Rightarrow> zmessage + string" where
  "parse_status v =
     (case v of
        JString s \<Rightarrow>
          (if s = ''pending'' \<or> s = ''paid'' then Inr s
           else Inl (LibraryDefault invalid_enum_value))
      | Undefined \<Rightarrow> Inl (LibraryDefault required)
      | _ \<Rightarrow> Inl (Custom ''Please select an invoice status.''))"

text \<open>An issue is the path of the field and the message.\<close>

type_synonym issue = "string \<times> zmessage"

definition issue_of :: "string \<Rightarrow> zmessage + 'a \<Rightarrow> issue list" where
  "issue_of path r = (case r of Inl m \<Rightarrow> [(path, m)] | Inr _ \<Rightarrow> [])"

datatype safe_parse_result = ParseSuccess valid_fields | ParseFailure "issue list"

text \<open>\<^verbatim>\<open>InvoiceSchema.safeParse\<close>, where \<^verbatim>\<open>InvoiceSchema = FormSchema.omit({ id: true, date: true })\<close>:
  every field of the shape is parsed, and the issues of all the fields are collected.\<close>

definition safeParse :: "env \<Rightarrow> raw_fields \<Rightarrow> safe_parse_result" where
  "safeParse env input =
     (case (parse_customerId (customerId input), parse_amount env (amount input),
            parse_status (status input)) of
        (Inr c, Inr a, Inr s) \<Rightarrow> ParseSuccess \<lparr>customerId = c, amount = a, status = s\<rparr>
      | (rc, ra, rs) \<Rightarrow>
          ParseFailure (issue_of ''customerId'' rc @ issue_of ''amount'' ra @ issue_of ''status'' rs))"

text \<open>\<^verbatim>\<open>error.flatten().fieldErrors\<close>: the messages of each field that has an issue.\<close>

type_synonym field_errors =
  "(zmessage list option, zmessage list option, zmessage list option) invoice_fields"

definition errors_for :: "string \<Rightarrow> issue list \<Rightarrow> zmessage list option" where
  "errors_for path issues =
     (let ms = map snd (filter (\<lambda>i. fst i = path) issues)
      in if ms = [] then None else Some ms)"

definition fieldErrors :: "issue list \<Rightarrow> field_errors" where
  "fieldErrors issues =
     \<lparr>customerId = errors_for ''customerId'' issues,
      amount = errors_for ''amount'' issues,
      status = errors_for ''status'' issues\<rparr>"

text \<open>\<^verbatim>\<open>export type State = { errors?: {...}; message?: string | null }\<close>\<close>

record state =
  errors :: "field_errors option"
  message :: "string option"

section \<open>The mutations\<close>

text \<open>
  The body of a \<^verbatim>\<open>try\<close> block that is a sequence of calls: they run in order, and the
  first one that throws ends the block with the thrown value.
\<close>

fun try_calls :: "(event \<times> jserror option) list \<Rightarrow> event list \<times> jserror option" where
  "try_calls [] = ([], None)"
| "try_calls ((ev, Some e) # rest) = ([ev], Some e)"
| "try_calls ((ev, None) # rest) = (let (evs, thrown) = try_calls rest in (ev # evs, thrown))"

definition nl :: string where
  "nl = [CHR 0x0A]"

text \<open>The constant pieces of the three tagged templates, as the \<^verbatim>\<open>sql\<close> tag receives them.\<close>

definition create_template :: "string list" where
  "create_template =
     [nl @ ''      INSERT INTO invoices (customer_id, amount, status, date)'' @ nl @
        ''      VALUES ('',
      '', '', '', '', '', '',
      '')'' @ nl @ ''    '']"

definition update_template :: "string list" where
  "update_template =
     [nl @ ''      UPDATE invoices'' @ nl @ ''      SET customer_id = '',
      '', amount = '',
      '', status = '',
      nl @ ''      WHERE id = '',
      nl @ ''    '']"

definition delete_template :: "string list" where
  "delete_template = [''DELETE FROM invoices WHERE id = '', []]"

definition createInvoice ::
  "env \<Rightarrow> state \<Rightarrow> formdata \<Rightarrow> event list \<times> state option outcome" where
  "createInvoice env prevState formData =
     (let data = fromEntries formData;
          input = \<lparr>customerId = get_property data ''customerId'',
                   amount = JNumber (Number env (get_property data ''amount'')),
                   status = get_property data ''status''\<rparr>
      in case safeParse env input of
           ParseFailure issues \<Rightarrow>
             ([SafeParse input],
              Returns (Some \<lparr>errors = Some (fieldErrors issues),
                             message = Some ''Missing Fields. Failed to create Invoice.''\<rparr>))
         | ParseSuccess validated \<Rightarrow>
             (let amountInCents = js_times (amount validated) (Fin 100);
                  date = takeWhile (\<lambda>c. c \<noteq> CHR ''T'') (toISOString env);
                  values = [JString (customerId validated), JNumber amountInCents,
                            JString (status validated), JString date];
                  (evs, thrown) =
                    try_calls
                      [(Sql create_template values, sql env create_template values),
                       (RevalidatePath ''/dashboard/invoices'',
                        revalidatePath env ''/dashboard/invoices''),
                       (Redirect ''/dashboard/invoices'', redirect env ''/dashboard/invoices'')]
              in case thrown of
                   None \<Rightarrow> (SafeParse input # evs, Returns None)
                 | Some error \<Rightarrow>
                     (SafeParse input # evs @ [ConsoleError ''Create Invoice Error:'' error],
                      Returns (Some \<lparr>errors = None,
                                     message = Some ''Database Error: Failed to create Invoice.''\<rparr>))))"

definition updateInvoice ::
  "env \<Rightarrow> string \<Rightarrow> formdata \<Rightarrow> event list \<times> state option outcome" where
  "updateInvoice env invoiceId formData =
     (let data = fromEntries formData;
          input = \<lparr>customerId = get_property data ''customerId'',
                   amount = JNumber (Number env (get_property data ''amount'')),
                   status = get_property data ''status''\<rparr>
      in case safeParse env input of
           ParseFailure issues \<Rightarrow>
             ([SafeParse input],
              Returns (Some \<lparr>errors = Some (fieldErrors issues),
                             message = Some ''Missing Fields. Failed to Update Invoice.''\<rparr>))
         | ParseSuccess validated \<Rightarrow>
             (let amountInCents = js_times (amount validated) (Fin 100);
                  values = [JString (customerId validated), JNumber amountInCents,
                            JString (status validated), JString invoiceId];
                  (evs, thrown) =
                    try_calls
                      [(Sql update_template values, sql env update_template values),
                       (RevalidatePath ''/dashboard/invoices'',
                        revalidatePath env ''/dashboard/invoices''),
                       (Redirect ''/dashboard/invoices'', redirect env ''/dashboard/invoices'')]
              in case thrown of
                   None \<Rightarrow> (SafeParse input # evs, Returns None)
                 | Some error \<Rightarrow>
                     (SafeParse input # evs @ [ConsoleError ''Update Invoice Error:'' error],
                      Returns (Some \<lparr>errors = None,
                                     message = Some ''Database Error: Failed to Update Invoice.''\<rparr>))))"

definition deleteInvoice :: "env \<Rightarrow> string \<Rightarrow> event list \<times> state option outcome" where
  "deleteInvoice env invoiceId =
     (let values = [JString invoiceId];
          (evs, thrown) =
            try_calls
              [(Sql delete_template values, sql env delete_template values),
               (RevalidatePath ''/dashboard/invoices'',
                revalidatePath env ''/dashboard/invoices'')]
      in case thrown of
           None \<Rightarrow> (evs, Returns (Some \<lparr>errors = None, message = Some ''Deleted Invoice''\<rparr>))
         | Some error \<Rightarrow>
             (evs @ [ConsoleError ''Delete Invoice Error:'' error],
              Returns (Some \<lparr>errors = None,
                             message = Some ''Database Error: Failed to Delete Invoice.''\<rparr>)))"

section \<open>Vocabulary of the properties\<close>

text \<open>The object that \<open>createInvoice\<close> and \<open>updateInvoice\<close> hand to the schema.\<close>

definition form_input :: "env \<Rightarrow> formdata \<Rightarrow> raw_fields" where
  "form_input env formData =
     \<lparr>customerId = get_property (fromEntries formData) ''customerId'',
      amount = JNumber (Number env (get_property (fromEntries formData) ''amount'')),
      status = get_property (fromEntries formData) ''status''\<rparr>"

text \<open>The SQL statements of a trace, each with its constant pieces and its values.\<close>

fun sql_statements :: "event list \<Rightarrow> (string list \<times> jsval list) list" where
  "sql_statements [] = []"
| "sql_statements (Sql strings values # evs) = (strings, values) # sql_statements evs"
| "sql_statements (_ # evs) = sql_statements evs"

text \<open>The cache invalidations and the redirects of a trace.\<close>

fun navigation :: "event list \<Rightarrow> event list" where
  "navigation [] = []"
| "navigation (RevalidatePath p # evs) = RevalidatePath p # navigation evs"
| "navigation (Redirect p # evs) = Redirect p # navigation evs"
| "navigation (_ # evs) = navigation evs"

text \<open>No SQL statement is issued before the first validation against the schema.\<close>

fun validated_before_sql :: "event list \<Rightarrow> bool" where
  "validated_before_sql [] = True"
| "validated_before_sql (SafeParse _ # _) = True"
| "validated_before_sql (Sql _ _ # _) = False"
| "validated_before_sql (_ # evs) = validated_before_sql evs"

text \<open>The state a mutation returns with a message and no field errors.\<close>

definition message_only :: "string \<Rightarrow> state option outcome" where
  "message_only m = Returns (Some \<lparr>errors = None, message = Some m\<rparr>)"

text \<open>The state \<open>createInvoice\<close> and \<open>updateInvoice\<close> return when validation fails.\<close>

definition validation_failure :: "issue list \<Rightarrow> string \<Rightarrow> state option outcome" where
  "validation_failure issues m =
     Returns (Some \<lparr>errors = Some (fieldErrors issues), message = Some m\<rparr>)"

text \<open>The date of the clock: the ISO timestamp up to its \<^verbatim>\<open>T\<close>.\<close>

definition today :: "env \<Rightarrow> string" where
  "today env = takeWhile (\<lambda>c. c \<noteq> CHR ''T'') (toISOString env)"

text \<open>The events of a trace after its first SQL statement.\<close>

fun after_sql :: "event list \<Rightarrow> event list" where
  "after_sql [] = []"
| "after_sql (Sql _ _ # evs) = evs"
| "after_sql (_ # evs) = after_sql evs"

subsection \<open>Sample runs\<close>

text \<open>
  An environment where every call completes but \<^verbatim>\<open>redirect\<close>, which signals the
  navigation by throwing, and where the string \<^verbatim>\<open>'1.1'\<close> converts to the double nearest
  to 1.1, which is \<open>2476979795053773 / 2 ^ 51\<close>; one where the database is down; and
  three forms.
\<close>

definition sample_env :: env where
  "sample_env =
     \<lparr>signIn = (\<lambda>provider formData. None),
      sql = (\<lambda>strings values. None),
      revalidatePath = (\<lambda>path. None),
      redirect = (\<lambda>path. Some (OtherError ''NEXT_REDIRECT'')),
      stringToNumber =
        (\<lambda>s. if s = ''12'' then Fin 12
             else if s = ''0'' then Fin 0
             else if s = ''1.1'' then Fin (2476979795053773 / 2251799813685248)
             else NaN),
      toISOString = ''2024-05-17T09:30:00.000Z''\<rparr>"

definition db_down_env :: env where
  "db_down_env = sample_env\<lparr>sql := (\<lambda>strings values. Some (OtherError ''connection refused''))\<rparr>"

definition good_form :: formdata where
  "good_form =
     [(''customerId'', FString ''c-1''), (''amount'', FString ''12''),
      (''status'', FString ''paid'')]"

definition zero_amount_form :: formdata where
  "zero_amount_form =
     [(''customerId'', FString ''c-1''), (''amount'', FString ''0''),
      (''status'', FString ''paid'')]"

definition decimal_form :: formdata where
  "decimal_form =
     [(''customerId'', FString ''c-1''), (''amount'', FString ''1.1''),
      (''status'', FString ''paid'')]"

definition no_state :: state where
  "no_state = \<lparr>errors = None, message = None\<rparr>"

definition good_values :: "jsval list" where
  "good_values = [JString ''c-1'', JNumber (Fin 1200), JString ''paid'']"

text \<open>The sample environment, with a \<^verbatim>\<open>signIn\<close> that throws.\<close>

definition signIn_throws :: "jserror \<Rightarrow> env" where
  "signIn_throws e = sample_env\<lparr>signIn := (\<lambda>provider formData. Some e)\<rparr>"

section \<open>Running the functions\<close>

lemma try_calls_2:
  "try_calls [(a, x), (b, y)] =
     (case x of
        Some e \<Rightarrow> ([a], Some e)
      | None \<Rightarrow> (case y of Some e \<Rightarrow> ([a, b], Some e) | None \<Rightarrow> ([a, b], None)))"
  by (cases x; cases y) simp_all

lemma try_calls_3:
  "try_calls [(a, x), (b, y), (c, z)] =
     (case x of
        Some e \<Rightarrow> ([a], Some e)
      | None \<Rightarrow>
          (case y of
             Some e \<Rightarrow> ([a, b], Some e)
           | None \<Rightarrow> (case z of Some e \<Rightarrow> ([a, b, c], Some e) | None \<Rightarrow> ([a, b, c], None))))"
  by (cases x; cases y; cases z) simp_all

text \<open>The two functions of a form, when the schema refuses the form.\<close>

lemma createInvoice_refused:
  assumes "safeParse env (form_input env formData) = ParseFailure issues"
  shows "createInvoice env prevState formData =
           ([SafeParse (form_input env formData)],
            validation_failure issues ''Missing Fields. Failed to create Invoice.'')"
  using assms by (simp add: createInvoice_def form_input_def validation_failure_def Let_def)

lemma updateInvoice_refused:
  assumes "safeParse env (form_input env formData) = ParseFailure issues"
  shows "updateInvoice env invoiceId formData =
           ([SafeParse (form_input env formData)],
            validation_failure issues ''Missing Fields. Failed to Update Invoice.'')"
  using assms by (simp add: updateInvoice_def form_input_def validation_failure_def Let_def)

text \<open>The two functions of a form, when the schema accepts it: the four ways the
  \<^verbatim>\<open>try\<close> block can go.\<close>

lemma createInvoice_accepted:
  assumes "safeParse env (form_input env formData) = ParseSuccess v"
    and "values = [JString (customerId v), JNumber (js_times (amount v) (Fin 100)),
                   JString (status v), JString (today env)]"
    and "stmt = Sql create_template values"
    and "inp = SafeParse (form_input env formData)"
    and "failed = message_only ''Database Error: Failed to create Invoice.''"
    and "path = ''/dashboard/invoices''"
  shows "createInvoice env prevState formData =
     (case sql env create_template values of
        Some e \<Rightarrow> ([inp, stmt, ConsoleError ''Create Invoice Error:'' e], failed)
      | None \<Rightarrow>
          (case revalidatePath env path of
             Some e \<Rightarrow>
               ([inp, stmt, RevalidatePath path, ConsoleError ''Create Invoice Error:'' e], failed)
           | None \<Rightarrow>
               (case redirect env path of
                  Some e \<Rightarrow>
                    ([inp, stmt, RevalidatePath path, Redirect path,
                      ConsoleError ''Create Invoice Error:'' e], failed)
                | None \<Rightarrow> ([inp, stmt, RevalidatePath path, Redirect path], Returns None))))"
  using assms
  by (simp add: createInvoice_def form_input_def message_only_def today_def try_calls_3 Let_def
      split: option.splits)

lemma updateInvoice_accepted:
  assumes "safeParse env (form_input env formData) = ParseSuccess v"
    and "values = [JString (customerId v), JNumber (js_times (amount v) (Fin 100)),
                   JString (status v), JString invoiceId]"
    and "stmt = Sql update_template values"
    and "inp = SafeParse (form_input env formData)"
    and "failed = message_only ''Database Error: Failed to Update Invoice.''"
    and "path = ''/dashboard/invoices''"
  shows "updateInvoice env invoiceId formData =
     (case sql env update_template values of
        Some e \<Rightarrow> ([inp, stmt, ConsoleError ''Update Invoice Error:'' e], failed)
      | None \<Rightarrow>
          (case revalidatePath env path of
             Some e \<Rightarrow>
               ([inp, stmt, RevalidatePath path, ConsoleError ''Update Invoice Error:'' e], failed)
           | None \<Rightarrow>
               (case redirect env path of
                  Some e \<Rightarrow>
                    ([inp, stmt, RevalidatePath path, Redirect path,
                      ConsoleError ''Update Invoice Error:'' e], failed)
                | None \<Rightarrow> ([inp, stmt, RevalidatePath path, Redirect path], Returns None))))"
  using assms
  by (simp add: updateInvoice_def form_input_def message_only_def try_calls_3 Let_def
      split: option.splits)

lemma deleteInvoice_run:
  assumes "stmt = Sql delete_template [JString invoiceId]"
    and "path = ''/dashboard/invoices''"
  shows "deleteInvoice env invoiceId =
     (case sql env delete_template [JString invoiceId] of
        Some e \<Rightarrow>
          ([stmt, ConsoleError ''Delete Invoice Error:'' e],
           message_only ''Database Error: Failed to Delete Invoice.'')
      | None \<Rightarrow>
          (case revalidatePath env path of
             Some e \<Rightarrow>
               ([stmt, RevalidatePath path, ConsoleError ''Delete Invoice Error:'' e],
                message_only ''Database Error: Failed to Delete Invoice.'')
           | None \<Rightarrow> ([stmt, RevalidatePath path], message_only ''Deleted Invoice'')))"
  using assms
  by (simp add: deleteInvoice_def message_only_def try_calls_2 Let_def split: option.splits)

text \<open>What the schema accepts.\<close>

lemma safeParse_accepts:
  assumes "safeParse env input = ParseSuccess v"
  shows "customerId input = JString (customerId v)"
    and "Number env (amount input) = amount v"
    and "status input = JString (status v)"
    and "js_gt (amount v) (Fin 0)"
    and "status v = ''pending'' \<or> status v = ''paid''"
proof -
  from assms obtain c a s where
    c: "parse_customerId (customerId input) = Inr c" and
    a: "parse_amount env (amount input) = Inr a" and
    s: "parse_status (status input) = Inr s" and
    v: "v = \<lparr>customerId = c, amount = a, status = s\<rparr>"
    by (auto simp: safeParse_def split: sum.splits)
  from c v show "customerId input = JString (customerId v)"
    by (auto simp: parse_customerId_def split: jsval.splits)
  from a v show "Number env (amount input) = amount v"
    by (auto simp: parse_amount_def Let_def split: if_splits)
  from s v show "status input = JString (status v)"
    by (auto simp: parse_status_def split: jsval.splits if_splits)
  from a have "a \<noteq> NaN" "\<not> js_le a (Fin 0)"
    by (auto simp: parse_amount_def Let_def split: if_splits)
  then have "js_gt a (Fin 0)"
    by (cases a) auto
  with v show "js_gt (amount v) (Fin 0)" by simp
  from s v show "status v = ''pending'' \<or> status v = ''paid''"
    by (auto simp: parse_status_def split: jsval.splits if_splits)
qed

lemma safeParse_refuses:
  assumes "\<not> (js_gt (Number env (amount input)) (Fin 0) \<and>
              (status input = JString ''pending'' \<or> status input = JString ''paid''))"
  shows "\<exists>issues. safeParse env input = ParseFailure issues"
proof (cases "safeParse env input")
  case (ParseSuccess v)
  from safeParse_accepts [OF this] assms show ?thesis by auto
next
  case (ParseFailure issues)
  then show ?thesis by blast
qed

section \<open>The multiplication of doubles\<close>

text \<open>The exponent that \<open>floor_log2\<close> computes is the one of its description.\<close>

lemma floor_log2_bounds:
  assumes "0 < x"
  shows "pow2 (floor_log2 x) \<le> x" and "x < pow2 (floor_log2 x + 1)"
proof -
  have "pow2 (floor_log2 x) \<le> x \<and> x < pow2 (floor_log2 x + 1)"
  proof (cases "1 \<le> x")
    case True
    define k where "k = \<lfloor>x\<rfloor>"
    from True have k: "0 < k"
      by (simp add: k_def)
    from bitlen_bounds [OF k] have lo: "2 ^ nat (bitlen k - 1) \<le> k" and hi: "k < 2 ^ nat (bitlen k)"
      by simp_all
    from k have b: "1 \<le> bitlen k"
      by (simp add: bitlen_alt_def)
    have fl: "floor_log2 x = bitlen k - 1"
      using True by (simp add: floor_log2_def k_def)
    have "(2 ^ nat (bitlen k - 1) :: rat) \<le> of_int k"
      using lo by simp
    moreover have "of_int k \<le> x"
      by (simp add: k_def)
    ultimately have "2 ^ nat (bitlen k - 1) \<le> x"
      by linarith
    then have 1: "pow2 (floor_log2 x) \<le> x"
      using b by (simp add: fl pow2_def)
    from hi have "k + 1 \<le> 2 ^ nat (bitlen k)"
      by simp
    then have "(of_int (k + 1) :: rat) \<le> 2 ^ nat (bitlen k)"
      by (simp only: of_int_le_numeral_power_cancel_iff)
    moreover have "x < of_int (k + 1)"
      unfolding k_def by linarith
    ultimately have "x < 2 ^ nat (bitlen k)"
      by linarith
    then have 2: "x < pow2 (floor_log2 x + 1)"
      using b by (simp add: fl pow2_def)
    from 1 2 show ?thesis ..
  next
    case False
    define c where "c = \<lceil>1 / x\<rceil>"
    define m where "m = c - 1"
    define b where "b = bitlen m"
    from False assms have y: "1 < 1 / x"
      by simp
    then have "1 < c"
      by (simp add: c_def less_ceiling_iff)
    then have m: "0 < m"
      by (simp add: m_def)
    from bitlen_bounds [OF m] have lo: "2 ^ nat (b - 1) \<le> m" and hi: "m < 2 ^ nat b"
      by (simp_all add: b_def)
    from m have b1: "1 \<le> b"
      by (simp add: b_def bitlen_alt_def)
    have fl: "floor_log2 x = - b"
      using False by (simp add: floor_log2_def b_def m_def c_def)
    from hi have "c \<le> 2 ^ nat b"
      by (simp add: m_def)
    then have "(of_int c :: rat) \<le> 2 ^ nat b"
      by (simp only: of_int_le_numeral_power_cancel_iff)
    moreover have "1 / x \<le> of_int c"
      by (simp add: c_def)
    ultimately have "1 / x \<le> 2 ^ nat b"
      by linarith
    with assms have "1 / 2 ^ nat b \<le> x"
      by (simp add: field_simps)
    then have 1: "pow2 (floor_log2 x) \<le> x"
      using b1 by (simp add: fl pow2_def)
    have "(2 ^ nat (b - 1) :: rat) \<le> of_int m"
      using lo by simp
    moreover have "of_int m < 1 / x"
      unfolding m_def c_def by linarith
    ultimately have "2 ^ nat (b - 1) < 1 / x"
      by linarith
    with assms have "x < 1 / 2 ^ nat (b - 1)"
      by (simp add: field_simps)
    then have 2: "x < pow2 (floor_log2 x + 1)"
      using b1 by (cases "b = 1") (simp_all add: fl pow2_def)
    from 1 2 show ?thesis ..
  qed
  then show "pow2 (floor_log2 x) \<le> x" and "x < pow2 (floor_log2 x + 1)"
    by simp_all
qed

lemma round_half_even_nearest:
  "\<bar>of_int (round_half_even q) - q\<bar> \<le> 1 / 2"
proof -
  have "of_int \<lfloor>q\<rfloor> \<le> q" "q < of_int \<lfloor>q\<rfloor> + 1"
    by linarith+
  then show ?thesis
    unfolding round_half_even_def Let_def by (simp add: abs_if) linarith
qed

lemma round_half_even_of_int: "round_half_even (of_int j) = j"
  by (simp add: round_half_even_def)

lemma pow2_powi: "pow2 k = 2 powi k"
  by (simp add: pow2_def power_int_def field_simps)

lemma pow2_pos: "0 < pow2 k"
  by (simp add: pow2_powi)

lemma pow2_add: "pow2 (j + k) = pow2 j * pow2 k"
  by (simp add: pow2_powi power_int_add)

lemma pow2_less_imp: "pow2 j < pow2 k \<Longrightarrow> j < k"
  using power_int_increasing [of k j "2 :: rat"] by (fastforce simp: pow2_powi)

lemma pow2_numeral: "pow2 (numeral n) = 2 ^ numeral n"
  by (simp add: pow2_def)

text \<open>A double is a fixed point of the rounding: a significand below \<open>2 ^ 53\<close>, an exponent
  from \<open>- 1074\<close> on, and a value below \<open>2 ^ 1024\<close>.\<close>

lemma round64_of_double:
  assumes x: "x = of_int m * pow2 e'" and m: "0 < m" "m < 2 ^ 53"
    and e': "- 1074 \<le> e'" and top: "x < pow2 1024"
  shows "round64 x = Fin x"
proof -
  define e where "e = max (floor_log2 x - 52) (- 1074)"
  define d where "d = nat (e' - e)"
  from m x have pos: "0 < x"
    by (simp add: pow2_pos)
  have "(of_int m :: rat) < 2 ^ 53"
    using m(2) by simp
  then have "x < 2 ^ 53 * pow2 e'"
    unfolding x using pow2_pos [of e'] by (simp only: mult_strict_right_mono)
  also have "\<dots> = pow2 (53 + e')"
    by (simp add: pow2_add pow2_numeral)
  finally have "pow2 (floor_log2 x) < pow2 (53 + e')"
    using floor_log2_bounds(1) [OF pos] by simp
  then have "floor_log2 x - 52 \<le> e'"
    using pow2_less_imp by fastforce
  with e' have "e \<le> e'"
    by (simp add: e_def)
  then have "e' = e + int d"
    by (simp add: d_def)
  then have split: "pow2 e' = pow2 e * 2 ^ d"
    by (simp add: pow2_powi power_int_add)
  have "x / pow2 e = of_int (m * 2 ^ d)"
    using pow2_pos [of e] by (simp add: x split)
  then have "round_half_even (x / pow2 e) = m * 2 ^ d"
    by (simp only: round_half_even_of_int)
  then have r: "of_int (round_half_even (x / pow2 e)) * pow2 e = x"
    by (simp add: x split)
  from pos have "x \<noteq> 0" "\<bar>x\<bar> = x" "sgn x = 1"
    by simp_all
  with r top show ?thesis
    unfolding round64_def e_def [symmetric] Let_def by (simp add: e_def [symmetric])
qed

text \<open>The rounding moves a value by half the spacing of the doubles around it, at most.\<close>

lemma round64_error:
  assumes "round64 x = Fin y"
  shows "\<bar>y - x\<bar> \<le> pow2 (max (floor_log2 \<bar>x\<bar> - 52) (- 1074)) / 2"
proof (cases "x = 0")
  case True
  with assms pow2_pos [of "max (floor_log2 \<bar>x\<bar> - 52) (- 1074)"] show ?thesis
    by (simp add: round64_def)
next
  case False
  define p where "p = pow2 (max (floor_log2 \<bar>x\<bar> - 52) (- 1074))"
  define r where "r = of_int (round_half_even (\<bar>x\<bar> / p)) * p"
  have p: "0 < p"
    by (simp add: p_def pow2_pos)
  from assms False have y: "y = sgn x * r"
    by (simp add: round64_def Let_def p_def r_def split: if_splits)
  have "y - x = sgn x * (r - \<bar>x\<bar>)"
    unfolding y by (simp only: right_diff_distrib mult_sgn_abs)
  then have "\<bar>y - x\<bar> = \<bar>sgn x\<bar> * \<bar>r - \<bar>x\<bar>\<bar>"
    by (simp only: abs_mult)
  also have "\<dots> = \<bar>r - \<bar>x\<bar>\<bar>"
    using False by (simp only: abs_sgn_eq if_False mult_1)
  also have "r - \<bar>x\<bar> = (of_int (round_half_even (\<bar>x\<bar> / p)) - \<bar>x\<bar> / p) * p"
    using p by (simp add: r_def left_diff_distrib)
  also have "\<bar>\<dots>\<bar> = \<bar>of_int (round_half_even (\<bar>x\<bar> / p)) - \<bar>x\<bar> / p\<bar> * p"
    using p by (simp only: abs_mult abs_of_pos)
  also have "\<dots> \<le> 1 / 2 * p"
    using round_half_even_nearest [of "\<bar>x\<bar> / p"] p
    by (intro mult_right_mono) simp_all
  finally show ?thesis
    by (simp add: p_def)
qed

lemma round64_of_pos_int:
  assumes "0 < k" and "k < 2 ^ 53"
  shows "round64 (of_int k) = Fin (of_int k)"
proof (rule round64_of_double [where m = k and e' = 0])
  show "(of_int k :: rat) = of_int k * pow2 0"
    by (simp add: pow2_def)
  from assms(2) have "(of_int k :: rat) < 2 ^ 53"
    by simp
  also have "\<dots> < pow2 1024"
    by (simp add: pow2_def)
  finally show "(of_int k :: rat) < pow2 1024" .
qed (use assms in simp_all)

lemma whole_amount_times_100:
  assumes "0 < n" and "100 * n < 2 ^ 53"
  shows "js_times (Fin (of_int n)) (Fin 100) = Fin (of_int (100 * n))"
proof -
  have "(of_int n :: rat) * 100 = of_int (100 * n)"
    by simp
  moreover from assms have "round64 (of_int (100 * n)) = Fin (of_int (100 * n))"
    by (intro round64_of_pos_int) simp_all
  ultimately show ?thesis
    by (simp only: js_times.simps)
qed

text \<open>Two products: one that is exact, and one that is not.\<close>

lemma twelve_times_100:
  "round64 1200 = Fin 1200"
  using round64_of_pos_int [of 1200] by simp

text \<open>In JavaScript, \<^verbatim>\<open>1.1 * 100\<close> is \<^verbatim>\<open>110.00000000000001\<close>.\<close>

lemma one_dollar_ten_times_100:
  "js_times (Fin (2476979795053773 / 2251799813685248)) (Fin 100) =
     Fin (7740561859543041 / 70368744177664)"
  by code_simp

section \<open>The sample runs, evaluated\<close>

lemma fromEntries_good_form:
  "get_property (fromEntries good_form) ''customerId'' = JString ''c-1''"
  "get_property (fromEntries good_form) ''amount'' = JString ''12''"
  "get_property (fromEntries good_form) ''status'' = JString ''paid''"
  by (simp_all add: fromEntries_def good_form_def get_property_def)

lemma fromEntries_zero_amount_form:
  "get_property (fromEntries zero_amount_form) ''customerId'' = JString ''c-1''"
  "get_property (fromEntries zero_amount_form) ''amount'' = JString ''0''"
  "get_property (fromEntries zero_amount_form) ''status'' = JString ''paid''"
  by (simp_all add: fromEntries_def zero_amount_form_def get_property_def)

lemma form_input_good_form:
  "form_input sample_env good_form =
     \<lparr>customerId = JString ''c-1'', amount = JNumber (Fin 12), status = JString ''paid''\<rparr>"
  "form_input db_down_env good_form =
     \<lparr>customerId = JString ''c-1'', amount = JNumber (Fin 12), status = JString ''paid''\<rparr>"
  by (simp_all add: form_input_def fromEntries_good_form Number_def sample_env_def db_down_env_def)

lemma form_input_zero_amount_form:
  "form_input sample_env zero_amount_form =
     \<lparr>customerId = JString ''c-1'', amount = JNumber (Fin 0), status = JString ''paid''\<rparr>"
  by (simp add: form_input_def fromEntries_zero_amount_form Number_def sample_env_def)

lemma safeParse_good_form:
  "safeParse sample_env (form_input sample_env good_form) =
     ParseSuccess \<lparr>customerId = ''c-1'', amount = Fin 12, status = ''paid''\<rparr>"
  "safeParse db_down_env (form_input db_down_env good_form) =
     ParseSuccess \<lparr>customerId = ''c-1'', amount = Fin 12, status = ''paid''\<rparr>"
  by (simp_all add: form_input_good_form safeParse_def parse_customerId_def parse_amount_def
      parse_status_def Number_def)

lemma safeParse_zero_amount_form:
  "safeParse sample_env (form_input sample_env zero_amount_form) =
     ParseFailure [(''amount'', Custom ''Please enter an amount greater than $0.'')]"
  by (simp add: form_input_zero_amount_form safeParse_def parse_customerId_def parse_amount_def
      parse_status_def Number_def issue_of_def)

lemma sample_env_calls:
  "sql sample_env strings values = None"
  "revalidatePath sample_env path = None"
  "redirect sample_env path = Some (OtherError ''NEXT_REDIRECT'')"
  "signIn sample_env provider formData = None"
  "today sample_env = ''2024-05-17''"
  by (simp_all add: sample_env_def today_def)

lemma db_down_env_calls:
  "sql db_down_env strings values = Some (OtherError ''connection refused'')"
  "today db_down_env = ''2024-05-17''"
  by (simp_all add: db_down_env_def sample_env_def today_def)

lemma createInvoice_sample_run:
  "createInvoice sample_env no_state good_form =
     ([SafeParse (form_input sample_env good_form),
       Sql create_template (good_values @ [JString ''2024-05-17'']),
       RevalidatePath ''/dashboard/invoices'', Redirect ''/dashboard/invoices'',
       ConsoleError ''Create Invoice Error:'' (OtherError ''NEXT_REDIRECT'')],
      message_only ''Database Error: Failed to create Invoice.'')"
  by (simp add: createInvoice_accepted [OF safeParse_good_form(1) refl refl refl refl refl]
      sample_env_calls twelve_times_100 good_values_def)

lemma updateInvoice_sample_run:
  "updateInvoice sample_env ''7'' good_form =
     ([SafeParse (form_input sample_env good_form),
       Sql update_template (good_values @ [JString ''7'']),
       RevalidatePath ''/dashboard/invoices'', Redirect ''/dashboard/invoices'',
       ConsoleError ''Update Invoice Error:'' (OtherError ''NEXT_REDIRECT'')],
      message_only ''Database Error: Failed to Update Invoice.'')"
  by (simp add: updateInvoice_accepted [OF safeParse_good_form(1) refl refl refl refl refl]
      sample_env_calls twelve_times_100 good_values_def)

lemma deleteInvoice_sample_run:
  "deleteInvoice sample_env ''7'' =
     ([Sql delete_template [JString ''7''], RevalidatePath ''/dashboard/invoices''],
      message_only ''Deleted Invoice'')"
  by (simp add: deleteInvoice_run [OF refl refl] sample_env_calls)

lemma createInvoice_db_down_run:
  "createInvoice db_down_env no_state good_form =
     ([SafeParse (form_input db_down_env good_form),
       Sql create_template (good_values @ [JString ''2024-05-17'']),
       ConsoleError ''Create Invoice Error:'' (OtherError ''connection refused'')],
      message_only ''Database Error: Failed to create Invoice.'')"
  by (simp add: createInvoice_accepted [OF safeParse_good_form(2) refl refl refl refl refl]
      db_down_env_calls twelve_times_100 good_values_def)

lemma updateInvoice_db_down_run:
  "updateInvoice db_down_env ''7'' good_form =
     ([SafeParse (form_input db_down_env good_form),
       Sql update_template (good_values @ [JString ''7'']),
       ConsoleError ''Update Invoice Error:'' (OtherError ''connection refused'')],
      message_only ''Database Error: Failed to Update Invoice.'')"
  by (simp add: updateInvoice_accepted [OF safeParse_good_form(2) refl refl refl refl refl]
      db_down_env_calls twelve_times_100 good_values_def)

lemma deleteInvoice_db_down_run:
  "deleteInvoice db_down_env ''7'' =
     ([Sql delete_template [JString ''7''],
       ConsoleError ''Delete Invoice Error:'' (OtherError ''connection refused'')],
      message_only ''Database Error: Failed to Delete Invoice.'')"
  by (simp add: deleteInvoice_run [OF refl refl] db_down_env_calls)

lemma createInvoice_zero_amount_run:
  "createInvoice sample_env no_state zero_amount_form =
     ([SafeParse (form_input sample_env zero_amount_form)],
      validation_failure [(''amount'', Custom ''Please enter an amount greater than $0.'')]
        ''Missing Fields. Failed to create Invoice.'')"
  by (rule createInvoice_refused [OF safeParse_zero_amount_form])

lemma updateInvoice_zero_amount_run:
  "updateInvoice sample_env ''7'' zero_amount_form =
     ([SafeParse (form_input sample_env zero_amount_form)],
      validation_failure [(''amount'', Custom ''Please enter an amount greater than $0.'')]
        ''Missing Fields. Failed to Update Invoice.'')"
  by (rule updateInvoice_refused [OF safeParse_zero_amount_form])

text \<open>In a run whose \<^verbatim>\<open>redirect\<close> throws, as the sample's does, the thrown value is caught
  with the database errors: the statement ran, and the message says it failed.\<close>

lemma redirect_throw_reported_as_database_error:
  assumes "safeParse env (form_input env formData) = ParseSuccess v"
    and "sql env create_template
           [JString (customerId v), JNumber (js_times (amount v) (Fin 100)),
            JString (status v), JString (today env)] = None"
    and "revalidatePath env ''/dashboard/invoices'' = None"
    and "redirect env ''/dashboard/invoices'' = Some e"
  shows "snd (createInvoice env prevState formData) =
           message_only ''Database Error: Failed to create Invoice.''"
  using assms(2-4)
  by (simp add: createInvoice_accepted [OF assms(1) refl refl refl refl refl])

section \<open>Properties of authenticate\<close>

text \<open>
  C5. \<open>authenticate\<close> hands the credential check to \<^verbatim>\<open>signIn('credentials', formData)\<close>,
  its only call. When \<^verbatim>\<open>signIn\<close> throws an \<^verbatim>\<open>AuthError\<close> of type
  \<^verbatim>\<open>'CredentialsSignin'\<close> it returns \<^verbatim>\<open>'Invalid credentials. Please try again.'\<close>; when
  \<^verbatim>\<open>signIn\<close> throws an \<^verbatim>\<open>AuthError\<close> of any other type it returns
  \<^verbatim>\<open>'Something went wrong. Please try again later.'\<close>; anything else that \<^verbatim>\<open>signIn\<close>
  throws is thrown again.
\<close>

theorem authenticate_delegates_to_signIn:
  "fst (authenticate env prevState formData) = [SignIn ''credentials'' formData] \<and>
   (signIn env ''credentials'' formData = Some (AuthError ''CredentialsSignin'') \<longrightarrow>
      snd (authenticate env prevState formData) =
        Returns (Some ''Invalid credentials. Please try again.'')) \<and>
   (\<forall>ty. signIn env ''credentials'' formData = Some (AuthError ty) \<longrightarrow>
      ty \<noteq> ''CredentialsSignin'' \<longrightarrow>
      snd (authenticate env prevState formData) =
        Returns (Some ''Something went wrong. Please try again later.'')) \<and>
   (\<forall>d. signIn env ''credentials'' formData = Some (OtherError d) \<longrightarrow>
      snd (authenticate env prevState formData) = Throws (OtherError d))"
  by (simp add: authenticate_def)

theorem authenticate_delegates_to_signIn_witness:
  "signIn (signIn_throws (AuthError ''CredentialsSignin'')) ''credentials'' good_form =
     Some (AuthError ''CredentialsSignin'') \<and>
   snd (authenticate (signIn_throws (AuthError ''CredentialsSignin'')) None good_form) =
     Returns (Some ''Invalid credentials. Please try again.'') \<and>
   signIn (signIn_throws (AuthError ''CallbackRouteError'')) ''credentials'' good_form =
     Some (AuthError ''CallbackRouteError'') \<and>
   snd (authenticate (signIn_throws (AuthError ''CallbackRouteError'')) None good_form) =
     Returns (Some ''Something went wrong. Please try again later.'') \<and>
   signIn (signIn_throws (OtherError ''NEXT_REDIRECT'')) ''credentials'' good_form =
     Some (OtherError ''NEXT_REDIRECT'') \<and>
   snd (authenticate (signIn_throws (OtherError ''NEXT_REDIRECT'')) None good_form) =
     Throws (OtherError ''NEXT_REDIRECT'')"
  using
    authenticate_delegates_to_signIn
      [of "signIn_throws (AuthError ''CredentialsSignin'')" None good_form]
    authenticate_delegates_to_signIn
      [of "signIn_throws (AuthError ''CallbackRouteError'')" None good_form]
    authenticate_delegates_to_signIn
      [of "signIn_throws (OtherError ''NEXT_REDIRECT'')" None good_form]
  by (simp add: signIn_throws_def)

text \<open>
  C10. When \<^verbatim>\<open>signIn\<close> completes without throwing, \<open>authenticate\<close> returns
  \<^verbatim>\<open>undefined\<close>; and whenever \<open>authenticate\<close> returns a string, \<^verbatim>\<open>signIn\<close> has thrown
  an \<^verbatim>\<open>AuthError\<close>.
\<close>

theorem authenticate_message_only_after_AuthError:
  "(signIn env ''credentials'' formData = None \<longrightarrow>
      snd (authenticate env prevState formData) = Returns None) \<and>
   (\<forall>m. snd (authenticate env prevState formData) = Returns (Some m) \<longrightarrow>
      (\<exists>ty. signIn env ''credentials'' formData = Some (AuthError ty)))"
  by (auto simp: authenticate_def split: option.splits jserror.splits if_splits)

theorem authenticate_message_only_after_AuthError_witness:
  "signIn sample_env ''credentials'' good_form = None \<and>
   snd (authenticate sample_env None good_form) = Returns None \<and>
   snd (authenticate (signIn_throws (AuthError ''CredentialsSignin'')) None good_form) =
     Returns (Some ''Invalid credentials. Please try again.'') \<and>
   (\<exists>ty. signIn (signIn_throws (AuthError ''CredentialsSignin'')) ''credentials'' good_form =
     Some (AuthError ty))"
proof -
  have completes: "signIn sample_env ''credentials'' good_form = None"
    by (simp add: sample_env_calls)
  have msg: "snd (authenticate (signIn_throws (AuthError ''CredentialsSignin'')) None good_form) =
      Returns (Some ''Invalid credentials. Please try again.'')"
    by (simp add: authenticate_def signIn_throws_def)
  from authenticate_message_only_after_AuthError [of sample_env good_form None] completes
  have "snd (authenticate sample_env None good_form) = Returns None"
    by blast
  moreover
  from authenticate_message_only_after_AuthError
    [of "signIn_throws (AuthError ''CredentialsSignin'')" good_form None] msg
  have "\<exists>ty. signIn (signIn_throws (AuthError ''CredentialsSignin'')) ''credentials'' good_form =
      Some (AuthError ty)"
    by blast
  ultimately show ?thesis
    using completes msg by blast
qed

section \<open>Properties of the mutations\<close>

subsection \<open>Validation comes first\<close>

text \<open>
  C1, as stated, asks of all three mutations that no SQL statement is issued before a
  validation against the schema. \<open>deleteInvoice\<close> takes an id and no form: it validates
  nothing, and its first event is the \<^verbatim>\<open>DELETE\<close> statement.
\<close>

theorem deleteInvoice_validates_nothing_counterexample:
  "sql_statements (fst (deleteInvoice sample_env ''7'')) =
     [(delete_template, [JString ''7''])] \<and>
   \<not> validated_before_sql (fst (deleteInvoice sample_env ''7''))"
  by (simp add: deleteInvoice_sample_run)

text \<open>
  C1, amended. \<open>createInvoice\<close> and \<open>updateInvoice\<close> validate the form input against the
  invoice schema before anything else, and issue an SQL statement only when the schema
  has accepted the input. \<open>deleteInvoice\<close> validates nothing: its first event is its SQL
  statement.
\<close>

theorem form_mutations_validate_before_sql:
  "(\<exists>rest. fst (createInvoice env prevState formData) =
      SafeParse (form_input env formData) # rest) \<and>
   validated_before_sql (fst (createInvoice env prevState formData)) \<and>
   (sql_statements (fst (createInvoice env prevState formData)) \<noteq> [] \<longrightarrow>
      (\<exists>v. safeParse env (form_input env formData) = ParseSuccess v)) \<and>
   (\<exists>rest. fst (updateInvoice env invoiceId formData) =
      SafeParse (form_input env formData) # rest) \<and>
   validated_before_sql (fst (updateInvoice env invoiceId formData)) \<and>
   (sql_statements (fst (updateInvoice env invoiceId formData)) \<noteq> [] \<longrightarrow>
      (\<exists>v. safeParse env (form_input env formData) = ParseSuccess v)) \<and>
   (\<exists>rest. fst (deleteInvoice env invoiceId) =
      Sql delete_template [JString invoiceId] # rest) \<and>
   \<not> validated_before_sql (fst (deleteInvoice env invoiceId))"
proof (cases "safeParse env (form_input env formData)")
  case (ParseSuccess v)
  have "\<exists>rest. fst (createInvoice env prevState formData) =
      SafeParse (form_input env formData) # rest"
    by (simp add: createInvoice_accepted [OF ParseSuccess refl refl refl refl refl]
        split: option.splits)
  moreover have "\<exists>rest. fst (updateInvoice env invoiceId formData) =
      SafeParse (form_input env formData) # rest"
    by (simp add: updateInvoice_accepted [OF ParseSuccess refl refl refl refl refl]
        split: option.splits)
  moreover have "\<exists>rest. fst (deleteInvoice env invoiceId) =
      Sql delete_template [JString invoiceId] # rest"
    by (simp add: deleteInvoice_run [OF refl refl] split: option.splits)
  ultimately show ?thesis
    using ParseSuccess by auto
next
  case (ParseFailure issues)
  have "\<exists>rest. fst (deleteInvoice env invoiceId) =
      Sql delete_template [JString invoiceId] # rest"
    by (simp add: deleteInvoice_run [OF refl refl] split: option.splits)
  then show ?thesis
    by (auto simp: createInvoice_refused [OF ParseFailure] updateInvoice_refused [OF ParseFailure])
qed

theorem form_mutations_validate_before_sql_witness:
  "sql_statements (fst (createInvoice sample_env no_state good_form)) \<noteq> [] \<and>
   sql_statements (fst (updateInvoice sample_env ''7'' good_form)) \<noteq> [] \<and>
   (\<exists>v. safeParse sample_env (form_input sample_env good_form) = ParseSuccess v) \<and>
   validated_before_sql (fst (createInvoice sample_env no_state good_form)) \<and>
   validated_before_sql (fst (updateInvoice sample_env ''7'' good_form)) \<and>
   \<not> validated_before_sql (fst (deleteInvoice sample_env ''7''))"
proof -
  have issued:
    "sql_statements (fst (createInvoice sample_env no_state good_form)) \<noteq> []"
    "sql_statements (fst (updateInvoice sample_env ''7'' good_form)) \<noteq> []"
    by (simp_all add: createInvoice_sample_run updateInvoice_sample_run)
  with form_mutations_validate_before_sql [of sample_env no_state good_form "''7''"]
  show ?thesis by blast
qed

subsection \<open>What follows a validation failure\<close>

text \<open>
  C3. When the schema refuses the form input, \<open>createInvoice\<close> and \<open>updateInvoice\<close> do
  nothing but return a state with the flattened per-field errors and the message
  \<^verbatim>\<open>'Missing Fields. Failed to create Invoice.'\<close>, respectively
  \<^verbatim>\<open>'Missing Fields. Failed to Update Invoice.'\<close>; no SQL statement is executed.
\<close>

theorem validation_failure_returns_field_errors:
  assumes "safeParse env (form_input env formData) = ParseFailure issues"
  shows "snd (createInvoice env prevState formData) =
           Returns (Some \<lparr>errors = Some (fieldErrors issues),
                          message = Some ''Missing Fields. Failed to create Invoice.''\<rparr>) \<and>
         sql_statements (fst (createInvoice env prevState formData)) = [] \<and>
         snd (updateInvoice env invoiceId formData) =
           Returns (Some \<lparr>errors = Some (fieldErrors issues),
                          message = Some ''Missing Fields. Failed to Update Invoice.''\<rparr>) \<and>
         sql_statements (fst (updateInvoice env invoiceId formData)) = []"
  by (simp add: createInvoice_refused [OF assms] updateInvoice_refused [OF assms]
      validation_failure_def)

theorem validation_failure_returns_field_errors_witness:
  "safeParse sample_env (form_input sample_env zero_amount_form) =
     ParseFailure [(''amount'', Custom ''Please enter an amount greater than $0.'')] \<and>
   snd (createInvoice sample_env no_state zero_amount_form) =
     Returns (Some \<lparr>errors = Some \<lparr>customerId = None,
                      amount = Some [Custom ''Please enter an amount greater than $0.''],
                      status = None\<rparr>,
                    message = Some ''Missing Fields. Failed to create Invoice.''\<rparr>) \<and>
   sql_statements (fst (createInvoice sample_env no_state zero_amount_form)) = [] \<and>
   snd (updateInvoice sample_env ''7'' zero_amount_form) =
     Returns (Some \<lparr>errors = Some \<lparr>customerId = None,
                      amount = Some [Custom ''Please enter an amount greater than $0.''],
                      status = None\<rparr>,
                    message = Some ''Missing Fields. Failed to Update Invoice.''\<rparr>) \<and>
   sql_statements (fst (updateInvoice sample_env ''7'' zero_amount_form)) = []"
  using validation_failure_returns_field_errors
    [OF safeParse_zero_amount_form, of no_state "''7''"]
  by (simp add: safeParse_zero_amount_form fieldErrors_def errors_for_def)

subsection \<open>What follows the SQL statement\<close>

text \<open>
  C2, as stated, asks of all three mutations that a statement that succeeds is followed
  by the invalidation of \<^verbatim>\<open>/dashboard/invoices\<close> and by a redirect to it. In the sample
  run of \<open>deleteInvoice\<close> the statement succeeds and the path is invalidated, and there
  is no redirect: the function returns \<^verbatim>\<open>{ message: 'Deleted Invoice' }\<close>.
\<close>

theorem deleteInvoice_no_redirect_counterexample:
  "Sql delete_template [JString ''7''] \<in> set (fst (deleteInvoice sample_env ''7'')) \<and>
   sql sample_env delete_template [JString ''7''] = None \<and>
   RevalidatePath ''/dashboard/invoices'' \<in> set (fst (deleteInvoice sample_env ''7'')) \<and>
   Redirect ''/dashboard/invoices'' \<notin> set (fst (deleteInvoice sample_env ''7'')) \<and>
   snd (deleteInvoice sample_env ''7'') = message_only ''Deleted Invoice''"
  by (simp add: deleteInvoice_sample_run sample_env_calls)

text \<open>
  C2, amended. In each of the three mutations, the call that follows an SQL statement
  that has succeeded is \<^verbatim>\<open>revalidatePath('/dashboard/invoices')\<close>. In \<open>createInvoice\<close> and
  \<open>updateInvoice\<close> the call after that, once the invalidation has returned, is
  \<^verbatim>\<open>redirect('/dashboard/invoices')\<close>. \<open>deleteInvoice\<close> calls no redirect: once the
  invalidation has returned it returns \<^verbatim>\<open>{ message: 'Deleted Invoice' }\<close>.
\<close>

theorem successful_sql_is_followed_by_invalidation:
  "(\<forall>strings values.
      Sql strings values \<in> set (fst (createInvoice env prevState formData)) \<longrightarrow>
      sql env strings values = None \<longrightarrow>
        take 1 (after_sql (fst (createInvoice env prevState formData))) =
          [RevalidatePath ''/dashboard/invoices''] \<and>
        (revalidatePath env ''/dashboard/invoices'' = None \<longrightarrow>
           take 2 (after_sql (fst (createInvoice env prevState formData))) =
             [RevalidatePath ''/dashboard/invoices'', Redirect ''/dashboard/invoices''])) \<and>
   (\<forall>strings values.
      Sql strings values \<in> set (fst (updateInvoice env invoiceId formData)) \<longrightarrow>
      sql env strings values = None \<longrightarrow>
        take 1 (after_sql (fst (updateInvoice env invoiceId formData))) =
          [RevalidatePath ''/dashboard/invoices''] \<and>
        (revalidatePath env ''/dashboard/invoices'' = None \<longrightarrow>
           take 2 (after_sql (fst (updateInvoice env invoiceId formData))) =
             [RevalidatePath ''/dashboard/invoices'', Redirect ''/dashboard/invoices''])) \<and>
   (\<forall>strings values.
      Sql strings values \<in> set (fst (deleteInvoice env invoiceId)) \<longrightarrow>
      sql env strings values = None \<longrightarrow>
        take 1 (after_sql (fst (deleteInvoice env invoiceId))) =
          [RevalidatePath ''/dashboard/invoices''] \<and>
        navigation (fst (deleteInvoice env invoiceId)) =
          [RevalidatePath ''/dashboard/invoices''] \<and>
        (revalidatePath env ''/dashboard/invoices'' = None \<longrightarrow>
           deleteInvoice env invoiceId =
             ([Sql strings values, RevalidatePath ''/dashboard/invoices''],
              message_only ''Deleted Invoice'')))"
proof (intro conjI)
  show "\<forall>strings values.
      Sql strings values \<in> set (fst (createInvoice env prevState formData)) \<longrightarrow>
      sql env strings values = None \<longrightarrow>
        take 1 (after_sql (fst (createInvoice env prevState formData))) =
          [RevalidatePath ''/dashboard/invoices''] \<and>
        (revalidatePath env ''/dashboard/invoices'' = None \<longrightarrow>
           take 2 (after_sql (fst (createInvoice env prevState formData))) =
             [RevalidatePath ''/dashboard/invoices'', Redirect ''/dashboard/invoices''])"
  proof (cases "safeParse env (form_input env formData)")
    case (ParseSuccess v)
    show ?thesis
      by (auto simp: createInvoice_accepted [OF ParseSuccess refl refl refl refl refl]
          split: option.splits)
  next
    case (ParseFailure issues)
    show ?thesis
      by (simp add: createInvoice_refused [OF ParseFailure])
  qed
next
  show "\<forall>strings values.
      Sql strings values \<in> set (fst (updateInvoice env invoiceId formData)) \<longrightarrow>
      sql env strings values = None \<longrightarrow>
        take 1 (after_sql (fst (updateInvoice env invoiceId formData))) =
          [RevalidatePath ''/dashboard/invoices''] \<and>
        (revalidatePath env ''/dashboard/invoices'' = None \<longrightarrow>
           take 2 (after_sql (fst (updateInvoice env invoiceId formData))) =
             [RevalidatePath ''/dashboard/invoices'', Redirect ''/dashboard/invoices''])"
  proof (cases "safeParse env (form_input env formData)")
    case (ParseSuccess v)
    show ?thesis
      by (auto simp: updateInvoice_accepted [OF ParseSuccess refl refl refl refl refl]
          split: option.splits)
  next
    case (ParseFailure issues)
    show ?thesis
      by (simp add: updateInvoice_refused [OF ParseFailure])
  qed
next
  show "\<forall>strings values.
      Sql strings values \<in> set (fst (deleteInvoice env invoiceId)) \<longrightarrow>
      sql env strings values = None \<longrightarrow>
        take 1 (after_sql (fst (deleteInvoice env invoiceId))) =
          [RevalidatePath ''/dashboard/invoices''] \<and>
        navigation (fst (deleteInvoice env invoiceId)) =
          [RevalidatePath ''/dashboard/invoices''] \<and>
        (revalidatePath env ''/dashboard/invoices'' = None \<longrightarrow>
           deleteInvoice env invoiceId =
             ([Sql strings values, RevalidatePath ''/dashboard/invoices''],
              message_only ''Deleted Invoice''))"
    by (auto simp: deleteInvoice_run [OF refl refl] split: option.splits)
qed

theorem successful_sql_is_followed_by_invalidation_witness:
  "Sql create_template (good_values @ [JString ''2024-05-17''])
     \<in> set (fst (createInvoice sample_env no_state good_form)) \<and>
   Sql update_template (good_values @ [JString ''7''])
     \<in> set (fst (updateInvoice sample_env ''7'' good_form)) \<and>
   Sql delete_template [JString ''7''] \<in> set (fst (deleteInvoice sample_env ''7'')) \<and>
   sql sample_env create_template (good_values @ [JString ''2024-05-17'']) = None \<and>
   sql sample_env update_template (good_values @ [JString ''7'']) = None \<and>
   sql sample_env delete_template [JString ''7''] = None \<and>
   revalidatePath sample_env ''/dashboard/invoices'' = None \<and>
   take 2 (after_sql (fst (createInvoice sample_env no_state good_form))) =
     [RevalidatePath ''/dashboard/invoices'', Redirect ''/dashboard/invoices''] \<and>
   take 2 (after_sql (fst (updateInvoice sample_env ''7'' good_form))) =
     [RevalidatePath ''/dashboard/invoices'', Redirect ''/dashboard/invoices''] \<and>
   deleteInvoice sample_env ''7'' =
     ([Sql delete_template [JString ''7''], RevalidatePath ''/dashboard/invoices''],
      message_only ''Deleted Invoice'')"
proof -
  have issued:
    "Sql create_template (good_values @ [JString ''2024-05-17''])
       \<in> set (fst (createInvoice sample_env no_state good_form))"
    "Sql update_template (good_values @ [JString ''7''])
       \<in> set (fst (updateInvoice sample_env ''7'' good_form))"
    "Sql delete_template [JString ''7''] \<in> set (fst (deleteInvoice sample_env ''7''))"
    by (simp_all add: createInvoice_sample_run updateInvoice_sample_run deleteInvoice_sample_run)
  have succeeded:
    "sql sample_env create_template (good_values @ [JString ''2024-05-17'']) = None"
    "sql sample_env update_template (good_values @ [JString ''7'']) = None"
    "sql sample_env delete_template [JString ''7''] = None"
    "revalidatePath sample_env ''/dashboard/invoices'' = None"
    by (simp_all add: sample_env_calls)
  from successful_sql_is_followed_by_invalidation [of sample_env no_state good_form "''7''"]
    issued succeeded
  show ?thesis by blast
qed

text \<open>
  C4. When the SQL statement of a mutation throws, the mutation returns: its result is
  the state with the message \<^verbatim>\<open>'Database Error: Failed to create Invoice.'\<close>,
  \<^verbatim>\<open>'Database Error: Failed to Update Invoice.'\<close> or
  \<^verbatim>\<open>'Database Error: Failed to Delete Invoice.'\<close>, and the run holds no cache
  invalidation and no redirect.
\<close>

theorem sql_failure_returns_message:
  "(\<forall>strings values e.
      Sql strings values \<in> set (fst (createInvoice env prevState formData)) \<longrightarrow>
      sql env strings values = Some e \<longrightarrow>
        snd (createInvoice env prevState formData) =
          Returns (Some \<lparr>errors = None,
                         message = Some ''Database Error: Failed to create Invoice.''\<rparr>) \<and>
        navigation (fst (createInvoice env prevState formData)) = []) \<and>
   (\<forall>strings values e.
      Sql strings values \<in> set (fst (updateInvoice env invoiceId formData)) \<longrightarrow>
      sql env strings values = Some e \<longrightarrow>
        snd (updateInvoice env invoiceId formData) =
          Returns (Some \<lparr>errors = None,
                         message = Some ''Database Error: Failed to Update Invoice.''\<rparr>) \<and>
        navigation (fst (updateInvoice env invoiceId formData)) = []) \<and>
   (\<forall>strings values e.
      Sql strings values \<in> set (fst (deleteInvoice env invoiceId)) \<longrightarrow>
      sql env strings values = Some e \<longrightarrow>
        snd (deleteInvoice env invoiceId) =
          Returns (Some \<lparr>errors = None,
                         message = Some ''Database Error: Failed to Delete Invoice.''\<rparr>) \<and>
        navigation (fst (deleteInvoice env invoiceId)) = [])"
proof (cases "safeParse env (form_input env formData)")
  case (ParseSuccess v)
  show ?thesis
    by (auto simp: createInvoice_accepted [OF ParseSuccess refl refl refl refl refl]
        updateInvoice_accepted [OF ParseSuccess refl refl refl refl refl]
        deleteInvoice_run [OF refl refl] message_only_def split: option.splits)
next
  case (ParseFailure issues)
  show ?thesis
    by (auto simp: createInvoice_refused [OF ParseFailure] updateInvoice_refused [OF ParseFailure]
        deleteInvoice_run [OF refl refl] message_only_def split: option.splits)
qed

theorem sql_failure_returns_message_witness:
  "Sql create_template (good_values @ [JString ''2024-05-17''])
     \<in> set (fst (createInvoice db_down_env no_state good_form)) \<and>
   Sql update_template (good_values @ [JString ''7''])
     \<in> set (fst (updateInvoice db_down_env ''7'' good_form)) \<and>
   Sql delete_template [JString ''7''] \<in> set (fst (deleteInvoice db_down_env ''7'')) \<and>
   sql db_down_env create_template (good_values @ [JString ''2024-05-17'']) =
     Some (OtherError ''connection refused'') \<and>
   sql db_down_env update_template (good_values @ [JString ''7'']) =
     Some (OtherError ''connection refused'') \<and>
   sql db_down_env delete_template [JString ''7''] = Some (OtherError ''connection refused'') \<and>
   snd (createInvoice db_down_env no_state good_form) =
     Returns (Some \<lparr>errors = None,
                    message = Some ''Database Error: Failed to create Invoice.''\<rparr>) \<and>
   navigation (fst (createInvoice db_down_env no_state good_form)) = [] \<and>
   snd (updateInvoice db_down_env ''7'' good_form) =
     Returns (Some \<lparr>errors = None,
                    message = Some ''Database Error: Failed to Update Invoice.''\<rparr>) \<and>
   navigation (fst (updateInvoice db_down_env ''7'' good_form)) = [] \<and>
   snd (deleteInvoice db_down_env ''7'') =
     Returns (Some \<lparr>errors = None,
                    message = Some ''Database Error: Failed to Delete Invoice.''\<rparr>) \<and>
   navigation (fst (deleteInvoice db_down_env ''7'')) = []"
proof -
  have issued:
    "Sql create_template (good_values @ [JString ''2024-05-17''])
       \<in> set (fst (createInvoice db_down_env no_state good_form))"
    "Sql update_template (good_values @ [JString ''7''])
       \<in> set (fst (updateInvoice db_down_env ''7'' good_form))"
    "Sql delete_template [JString ''7''] \<in> set (fst (deleteInvoice db_down_env ''7''))"
    by (simp_all add: createInvoice_db_down_run updateInvoice_db_down_run
        deleteInvoice_db_down_run)
  have thrown:
    "sql db_down_env create_template (good_values @ [JString ''2024-05-17'']) =
       Some (OtherError ''connection refused'')"
    "sql db_down_env update_template (good_values @ [JString ''7'']) =
       Some (OtherError ''connection refused'')"
    "sql db_down_env delete_template [JString ''7''] = Some (OtherError ''connection refused'')"
    by (simp_all add: db_down_env_calls)
  from sql_failure_returns_message [of db_down_env no_state good_form "''7''"] issued thrown
  show ?thesis by blast
qed

subsection \<open>The statements and their values\<close>

text \<open>
  C6. The text of the SQL that a mutation issues is a fixed template: in any two runs
  of \<open>createInvoice\<close>, whatever the environments and the forms, every statement issued
  has the pieces of \<open>create_template\<close>, and so for \<open>updateInvoice\<close> with
  \<open>update_template\<close> and for \<open>deleteInvoice\<close> with \<open>delete_template\<close>, three constants
  that no input reaches. The id that \<open>deleteInvoice\<close> is given travels as a value of
  the statement.
\<close>

theorem sql_text_is_a_fixed_template:
  "list_all (\<lambda>strings. strings = create_template)
     (map fst (sql_statements (fst (createInvoice env prevState formData))) @
      map fst (sql_statements (fst (createInvoice env' prevState' formData')))) \<and>
   list_all (\<lambda>strings. strings = update_template)
     (map fst (sql_statements (fst (updateInvoice env invoiceId formData))) @
      map fst (sql_statements (fst (updateInvoice env' invoiceId' formData')))) \<and>
   map fst (sql_statements (fst (deleteInvoice env invoiceId))) @
   map fst (sql_statements (fst (deleteInvoice env' invoiceId'))) =
     [delete_template, delete_template] \<and>
   map snd (sql_statements (fst (deleteInvoice env invoiceId))) = [[JString invoiceId]]"
proof -
  have create: "list_all (\<lambda>strings. strings = create_template)
      (map fst (sql_statements (fst (createInvoice e p f))))" for e p f
  proof (cases "safeParse e (form_input e f)")
    case (ParseSuccess v)
    show ?thesis
      by (simp add: createInvoice_accepted [OF ParseSuccess refl refl refl refl refl]
          split: option.splits)
  next
    case (ParseFailure issues)
    show ?thesis
      by (simp add: createInvoice_refused [OF ParseFailure])
  qed
  have update: "list_all (\<lambda>strings. strings = update_template)
      (map fst (sql_statements (fst (updateInvoice e i f))))" for e i f
  proof (cases "safeParse e (form_input e f)")
    case (ParseSuccess v)
    show ?thesis
      by (simp add: updateInvoice_accepted [OF ParseSuccess refl refl refl refl refl]
          split: option.splits)
  next
    case (ParseFailure issues)
    show ?thesis
      by (simp add: updateInvoice_refused [OF ParseFailure])
  qed
  have delete: "sql_statements (fst (deleteInvoice e i)) = [(delete_template, [JString i])]"
    for e i
    by (simp add: deleteInvoice_run [OF refl refl] split: option.splits)
  show ?thesis
    by (simp add: create update delete)
qed

text \<open>
  C8. \<open>createInvoice\<close> and \<open>updateInvoice\<close> issue an SQL statement only when the coerced
  amount is a number greater than 0 and the status is \<^verbatim>\<open>'pending'\<close> or \<^verbatim>\<open>'paid'\<close>. For an
  input that violates one of the two, the function returns the validation errors and
  issues no SQL statement.
\<close>

theorem sql_requires_positive_amount_and_known_status:
  "(sql_statements (fst (createInvoice env prevState formData)) \<noteq> [] \<longrightarrow>
      Number env (amount (form_input env formData)) \<noteq> NaN \<and>
      js_gt (Number env (amount (form_input env formData))) (Fin 0) \<and>
      (status (form_input env formData) = JString ''pending'' \<or>
       status (form_input env formData) = JString ''paid'')) \<and>
   (sql_statements (fst (updateInvoice env invoiceId formData)) \<noteq> [] \<longrightarrow>
      Number env (amount (form_input env formData)) \<noteq> NaN \<and>
      js_gt (Number env (amount (form_input env formData))) (Fin 0) \<and>
      (status (form_input env formData) = JString ''pending'' \<or>
       status (form_input env formData) = JString ''paid'')) \<and>
   (\<not> (js_gt (Number env (amount (form_input env formData))) (Fin 0) \<and>
        (status (form_input env formData) = JString ''pending'' \<or>
         status (form_input env formData) = JString ''paid'')) \<longrightarrow>
      (\<exists>issues.
         createInvoice env prevState formData =
           ([SafeParse (form_input env formData)],
            validation_failure issues ''Missing Fields. Failed to create Invoice.'') \<and>
         updateInvoice env invoiceId formData =
           ([SafeParse (form_input env formData)],
            validation_failure issues ''Missing Fields. Failed to Update Invoice.'')) \<and>
      sql_statements (fst (createInvoice env prevState formData)) = [] \<and>
      sql_statements (fst (updateInvoice env invoiceId formData)) = [])"
proof (cases "safeParse env (form_input env formData)")
  case (ParseSuccess v)
  note ok = safeParse_accepts [OF ParseSuccess]
  from ok(2,4) have "js_gt (Number env (amount (form_input env formData))) (Fin 0)"
    by simp
  moreover from this have "Number env (amount (form_input env formData)) \<noteq> NaN"
    by auto
  moreover from ok(3,5) have
    "status (form_input env formData) = JString ''pending'' \<or>
     status (form_input env formData) = JString ''paid''"
    by auto
  ultimately show ?thesis
    by blast
next
  case (ParseFailure issues)
  show ?thesis
    by (auto simp: createInvoice_refused [OF ParseFailure] updateInvoice_refused [OF ParseFailure])
qed

theorem sql_requires_positive_amount_and_known_status_witness:
  "sql_statements (fst (createInvoice sample_env no_state good_form)) \<noteq> [] \<and>
   sql_statements (fst (updateInvoice sample_env ''7'' good_form)) \<noteq> [] \<and>
   js_gt (Number sample_env (amount (form_input sample_env good_form))) (Fin 0) \<and>
   status (form_input sample_env good_form) = JString ''paid'' \<and>
   \<not> js_gt (Number sample_env (amount (form_input sample_env zero_amount_form))) (Fin 0) \<and>
   sql_statements (fst (createInvoice sample_env no_state zero_amount_form)) = [] \<and>
   sql_statements (fst (updateInvoice sample_env ''7'' zero_amount_form)) = []"
proof -
  have issued:
    "sql_statements (fst (createInvoice sample_env no_state good_form)) \<noteq> []"
    "sql_statements (fst (updateInvoice sample_env ''7'' good_form)) \<noteq> []"
    by (simp_all add: createInvoice_sample_run updateInvoice_sample_run)
  have paid: "status (form_input sample_env good_form) = JString ''paid''"
    by (simp add: form_input_good_form)
  have zero: "\<not> js_gt (Number sample_env (amount (form_input sample_env zero_amount_form))) (Fin 0)"
    by (simp add: form_input_zero_amount_form Number_def)
  from sql_requires_positive_amount_and_known_status
    [of sample_env no_state good_form "''7''"] issued
  have "js_gt (Number sample_env (amount (form_input sample_env good_form))) (Fin 0)"
    by blast
  moreover
  from sql_requires_positive_amount_and_known_status
    [of sample_env no_state zero_amount_form "''7''"] zero
  have "sql_statements (fst (createInvoice sample_env no_state zero_amount_form)) = []"
    "sql_statements (fst (updateInvoice sample_env ''7'' zero_amount_form)) = []"
    by blast+
  ultimately show ?thesis
    using issued paid zero by blast
qed

lemma safeParse_decimal_form:
  "safeParse sample_env (form_input sample_env decimal_form) =
     ParseSuccess \<lparr>customerId = ''c-1'', amount = Fin (2476979795053773 / 2251799813685248),
                   status = ''paid''\<rparr>"
  by (simp add: form_input_def fromEntries_def decimal_form_def get_property_def safeParse_def
      parse_customerId_def parse_amount_def parse_status_def Number_def sample_env_def)

text \<open>
  C9, as stated, asks that the amount passed to the statement is 100 times the validated
  amount of the form. For the form amount \<^verbatim>\<open>'1.1'\<close> the validated amount is the double
  nearest to 1.1, and the amount that \<open>createInvoice\<close> passes is the double
  \<^verbatim>\<open>110.00000000000001\<close>, which is not 100 times it.
\<close>

theorem amount_one_dollar_ten_counterexample:
  "safeParse sample_env (form_input sample_env decimal_form) =
     ParseSuccess \<lparr>customerId = ''c-1'', amount = Fin (2476979795053773 / 2251799813685248),
                   status = ''paid''\<rparr> \<and>
   map snd (sql_statements (fst (createInvoice sample_env no_state decimal_form))) =
     [[JString ''c-1'', JNumber (Fin (7740561859543041 / 70368744177664)), JString ''paid'',
       JString ''2024-05-17'']] \<and>
   Fin (7740561859543041 / 70368744177664) \<noteq> Fin (100 * (2476979795053773 / 2251799813685248))"
proof -
  have "map snd (sql_statements (fst (createInvoice sample_env no_state decimal_form))) =
     [[JString ''c-1'', JNumber (Fin (7740561859543041 / 70368744177664)), JString ''paid'',
       JString ''2024-05-17'']]"
    by (simp add: createInvoice_accepted [OF safeParse_decimal_form refl refl refl refl refl]
        sample_env_calls one_dollar_ten_times_100 del: js_times.simps)
  then show ?thesis
    by (simp add: safeParse_decimal_form)
qed

text \<open>
  C9, amended. For an input that the schema accepts, the validated customer id and
  status are the strings of the form, and the validated amount is the number of the
  form's amount: Infinity or a finite number greater than 0. The one statement of
  \<open>createInvoice\<close>, and the one of \<open>updateInvoice\<close>, carries the customer id and the
  status unchanged, and as amount the product \<^verbatim>\<open>amount * 100\<close> of doubles: 100 times the
  validated amount rounded to the nearest double, and Infinity for Infinity. For a whole
  amount \<open>n\<close> with \<open>100 * n < 2 ^ 53\<close> this is 100 times the amount.
\<close>

theorem stored_amount_is_rounded_product:
  assumes "safeParse env (form_input env formData) = ParseSuccess v"
  shows "get_property (fromEntries formData) ''customerId'' = JString (customerId v) \<and>
         Number env (get_property (fromEntries formData) ''amount'') = amount v \<and>
         get_property (fromEntries formData) ''status'' = JString (status v) \<and>
         map snd (sql_statements (fst (createInvoice env prevState formData))) =
           [[JString (customerId v), JNumber (js_times (amount v) (Fin 100)),
             JString (status v), JString (today env)]] \<and>
         map snd (sql_statements (fst (updateInvoice env invoiceId formData))) =
           [[JString (customerId v), JNumber (js_times (amount v) (Fin 100)),
             JString (status v), JString invoiceId]] \<and>
         (amount v = PosInf \<or> (\<exists>q. 0 < q \<and> amount v = Fin q)) \<and>
         js_times (amount v) (Fin 100) =
           (case amount v of Fin q \<Rightarrow> round64 (100 * q) | other \<Rightarrow> other) \<and>
         (\<forall>n. amount v = Fin (of_int n) \<longrightarrow> 100 * n < 2 ^ 53 \<longrightarrow>
            js_times (amount v) (Fin 100) = Fin (of_int (100 * n)))"
proof -
  note ok = safeParse_accepts [OF assms]
  have fields:
    "get_property (fromEntries formData) ''customerId'' = JString (customerId v)"
    "Number env (get_property (fromEntries formData) ''amount'') = amount v"
    "get_property (fromEntries formData) ''status'' = JString (status v)"
    using ok(1-3) by (simp_all add: form_input_def Number_def)
  have create: "map snd (sql_statements (fst (createInvoice env prevState formData))) =
      [[JString (customerId v), JNumber (js_times (amount v) (Fin 100)),
        JString (status v), JString (today env)]]"
    by (simp add: createInvoice_accepted [OF assms refl refl refl refl refl]
        split: option.splits)
  have update: "map snd (sql_statements (fst (updateInvoice env invoiceId formData))) =
      [[JString (customerId v), JNumber (js_times (amount v) (Fin 100)),
        JString (status v), JString invoiceId]]"
    by (simp add: updateInvoice_accepted [OF assms refl refl refl refl refl]
        split: option.splits)
  have positive: "amount v = PosInf \<or> (\<exists>q. 0 < q \<and> amount v = Fin q)"
    using ok(4) by (cases "amount v") simp_all
  have rounded: "js_times (amount v) (Fin 100) =
      (case amount v of Fin q \<Rightarrow> round64 (100 * q) | other \<Rightarrow> other)"
    by (cases "amount v") (simp_all add: mult.commute)
  have whole: "\<forall>n. amount v = Fin (of_int n) \<longrightarrow> 100 * n < 2 ^ 53 \<longrightarrow>
      js_times (amount v) (Fin 100) = Fin (of_int (100 * n))"
  proof (intro allI impI)
    fix n :: int
    assume n: "amount v = Fin (of_int n)" and small: "100 * n < 2 ^ 53"
    from ok(4) n have "0 < n"
      by simp
    from whole_amount_times_100 [OF this small] n
    show "js_times (amount v) (Fin 100) = Fin (of_int (100 * n))"
      by simp
  qed
  from fields create update positive rounded whole show ?thesis
    by blast
qed

theorem stored_amount_is_rounded_product_witness:
  "safeParse sample_env (form_input sample_env good_form) =
     ParseSuccess \<lparr>customerId = ''c-1'', amount = Fin (of_int 12), status = ''paid''\<rparr> \<and>
   (100 * 12 :: int) < 2 ^ 53 \<and>
   js_times (Fin (of_int 12)) (Fin 100) = Fin (of_int (100 * 12)) \<and>
   map snd (sql_statements (fst (createInvoice sample_env no_state good_form))) =
     [[JString ''c-1'', JNumber (js_times (Fin (of_int 12)) (Fin 100)), JString ''paid'',
       JString ''2024-05-17'']] \<and>
   map snd (sql_statements (fst (updateInvoice sample_env ''7'' good_form))) =
     [[JString ''c-1'', JNumber (js_times (Fin (of_int 12)) (Fin 100)), JString ''paid'',
       JString ''7'']]"
proof -
  have parsed: "safeParse sample_env (form_input sample_env good_form) =
      ParseSuccess \<lparr>customerId = ''c-1'', amount = Fin (of_int 12), status = ''paid''\<rparr>"
    by (simp add: safeParse_good_form(1))
  have small: "(100 * 12 :: int) < 2 ^ 53"
    by simp
  from stored_amount_is_rounded_product [OF parsed, of no_state "''7''"]
  have run:
    "map snd (sql_statements (fst (createInvoice sample_env no_state good_form))) =
       [[JString ''c-1'', JNumber (js_times (Fin (of_int 12)) (Fin 100)), JString ''paid'',
         JString (today sample_env)]]"
    "map snd (sql_statements (fst (updateInvoice sample_env ''7'' good_form))) =
       [[JString ''c-1'', JNumber (js_times (Fin (of_int 12)) (Fin 100)), JString ''paid'',
         JString ''7'']]"
    and whole: "\<forall>n. Fin (of_int 12) = Fin (of_int n) \<longrightarrow> 100 * n < 2 ^ 53 \<longrightarrow>
      js_times (Fin (of_int 12)) (Fin 100) = Fin (of_int (100 * n))"
    by simp_all
  from whole small have "js_times (Fin (of_int 12)) (Fin 100) = Fin (of_int (100 * 12))"
    by blast
  with parsed small run show ?thesis
    by (simp only: sample_env_calls simp_thms)
qed

end
